theory Spec2Isabelle
  imports Main "HOL-Library.Sublist"
begin

section \<open>AutoScraper: fetch from Wind, fill a workbook, capture a range, send by mail\<close>

text \<open>
  A shallow embedding of \<^verbatim>\<open>autoscraper_workflow.py\<close>. The program is sequential glue
  around four external systems (the Wind terminal, openpyxl, Excel driven over COM, SMTP).
  Every call that leaves the program is recorded, in order, in the trace of the world, and
  its outcome (does it raise, what does it answer) is given by an environment that may
  depend on the whole trace so far. Exceptions are values: a function returns
  \<open>(error + 'a) \<times> world\<close>, the world as it is when the function returns or raises.
\<close>

subsection \<open>Exceptions\<close>

type_synonym path = string

text \<open>
  \<open>RuntimeError\<close> is the only exception the program raises itself (with a message).
  \<open>IndexError\<close> comes from indexing a Python list, \<open>KeyError\<close> from
  \<^verbatim>\<open>wb[sheet_name]\<close>, \<open>FileNotFoundError\<close> from opening a file that is not there.
  \<open>LibraryError cls\<close> is any other exception, of class \<open>cls\<close>, raised inside an
  external library.
\<close>

datatype error =
    RuntimeError string
  | IndexError
  | KeyError string
  | FileNotFoundError path
  | LibraryError string

fun exc_class :: "error \<Rightarrow> string" where
  "exc_class (RuntimeError _) = ''RuntimeError''"
| "exc_class IndexError = ''IndexError''"
| "exc_class (KeyError _) = ''KeyError''"
| "exc_class (FileNotFoundError _) = ''FileNotFoundError''"
| "exc_class (LibraryError cls) = cls"

subsection \<open>Configuration models\<close>

record data_spec =
  spec_identifier :: string
  spec_fields :: "string list"
  start :: string
  end_date :: string
  frequency :: string
  options :: "string option"

record cell_mapping =
  workbook_path :: path
  sheet_name :: string
  mapping :: "(string \<times> string) list"

record screenshot_spec =
  shot_workbook_path :: path
  shot_sheet_name :: string
  range_address :: string
  output_path :: path

record email_spec =
  smtp_host :: string
  smtp_port :: int
  username :: string
  password :: string
  recipients :: "string list"
  cc :: "string list"
  bcc :: "string list"
  subject :: string
  body :: string
  attachments :: "path list"

subsection \<open>The world outside the program\<close>

text \<open>
  A workbook on disk maps sheet names to sheets, a sheet maps cell addresses to values.
  The picture Excel exports is described by what was captured.
\<close>

type_synonym 'c sheet = "string \<rightharpoonup> 'c"
type_synonym 'c workbook = "string \<rightharpoonup> 'c sheet"

datatype 'c disk_file =
    WorkbookFile "'c workbook"
  | PictureFile path string string

record 'c message =
  hSubject :: string
  hFrom :: string
  hTo :: string
  hCc :: "string option"
  hBcc :: "string option"
  content :: string
  parts :: "('c disk_file \<times> string) list"

datatype info =
    LoggingIn
  | Fetching string "string list" string string
  | LoggingOut
  | Populating path
  | Capturing string string path
  | Sending "string list"

text \<open>
  The calls that leave the program, one constructor per call of the source:
  \<^verbatim>\<open>logging.info\<close> and \<^verbatim>\<open>logging.warning\<close> (the warning carries the missing key),
  the Wind client, openpyxl, the file system, Excel over COM, and smtplib.
\<close>

datatype 'c call =
    LogInfo info
  | LogWarning string
  | WindStart
  | WindWsd string string string string string
  | WindStop
  | LoadWorkbook path
  | SetCell string 'c
  | SaveWorkbook path
  | MkdirParents path
  | Dispatch
  | SetVisible
  | WorkbooksOpen path
  | Worksheets string
  | SheetRange string
  | CopyPicture
  | ChartObjects
  | ChartAdd
  | ChartPaste
  | ChartExport path
  | ChartDelete
  | WorkbookClose
  | Quit
  | ReadBytes path
  | SmtpConnect string int
  | StartTls
  | Login string string
  | SendMessage "'c message"
  | SmtpQuit

record 'v wind_data =
  ErrorCode :: int
  Data :: "'v list list"
  Times :: "'v list"

text \<open>
  The environment: \<open>raises\<close> tells, from the trace up to and including a call, whether
  that call raises; \<open>wsd_reply\<close> and \<open>export_reply\<close> give what \<^verbatim>\<open>w.wsd\<close> and
  \<^verbatim>\<open>Chart.Export\<close> answer; \<open>resolve\<close> and \<open>name_of\<close> are \<^verbatim>\<open>Path.resolve\<close> and
  \<^verbatim>\<open>Path.name\<close>; the four flags say which optional imports succeeded.
\<close>

record ('v, 'c) env =
  raises :: "'c call list \<Rightarrow> error option"
  wsd_reply :: "'c call list \<Rightarrow> 'v wind_data"
  export_reply :: "'c call list \<Rightarrow> bool"
  resolve :: "path \<Rightarrow> path"
  name_of :: "path \<Rightarrow> string"
  wind_client_present :: bool
  load_workbook_present :: bool
  win32com_present :: bool
  smtplib_present :: bool

record 'c world =
  files :: "path \<rightharpoonup> 'c disk_file"
  trace :: "'c call list"

type_synonym ('a, 'c) result = "(error + 'a) \<times> 'c world"

definition emit :: "'c call \<Rightarrow> 'c world \<Rightarrow> 'c world" where
  "emit c w = w\<lparr>trace := trace w @ [c]\<rparr>"

definition perform :: "('v, 'c) env \<Rightarrow> 'c call \<Rightarrow> 'c world \<Rightarrow> (unit, 'c) result" where
  "perform env c w =
     (let w' = emit c w in
      case raises env (trace w') of
        Some e \<Rightarrow> (Inl e, w')
      | None \<Rightarrow> (Inr (), w'))"

text \<open>Sequencing: the first exception ends the computation.\<close>

definition bindE :: "('a, 'c) result \<Rightarrow> ('a \<Rightarrow> 'c world \<Rightarrow> ('b, 'c) result) \<Rightarrow> ('b, 'c) result" where
  "bindE r f = (case r of (Inl e, w) \<Rightarrow> (Inl e, w) | (Inr a, w) \<Rightarrow> f a w)"

text \<open>
  \<^verbatim>\<open>try: ... finally: cleanup\<close>, and the exit of a \<^verbatim>\<open>with\<close> block whose
  \<^verbatim>\<open>__exit__\<close> returns nothing: the cleanup runs on every path out of the body; an
  exception of the cleanup replaces the outcome of the body.
\<close>

definition finallyE :: "('a, 'c) result \<Rightarrow> ('c world \<Rightarrow> (unit, 'c) result) \<Rightarrow> ('a, 'c) result" where
  "finallyE r cleanup =
     (case cleanup (snd r) of
        (Inl e, w) \<Rightarrow> (Inl e, w)
      | (Inr _, w) \<Rightarrow> (fst r, w))"

subsection \<open>Python's string formatting\<close>

definition digit_char :: "nat \<Rightarrow> char" where
  "digit_char d = ''0123456789'' ! d"

function str_nat :: "nat \<Rightarrow> string" where
  "str_nat n = (if n < 10 then [digit_char n] else str_nat (n div 10) @ [digit_char (n mod 10)])"
  by pat_completeness auto
termination
  by (relation "measure id") auto

declare str_nat.simps [simp del]

definition str_int :: "int \<Rightarrow> string" where
  "str_int i = (if i < 0 then CHR ''-'' # str_nat (nat (- i)) else str_nat (nat i))"

fun join :: "string \<Rightarrow> string list \<Rightarrow> string" where
  "join sep [] = []"
| "join sep [x] = x"
| "join sep (x # y # ys) = x @ sep @ join sep (y # ys)"

subsection \<open>Wind data access\<close>

definition WindDataFetcher_init :: "('v, 'c) env \<Rightarrow> error + unit" where
  "WindDataFetcher_init env =
     (if \<not> wind_client_present env
      then Inl (RuntimeError (''WindPy is not available. Install WindPy and run this on a machine '' @
                               ''with Wind Financial Terminal.''))
      else Inr ())"

definition WindDataFetcher_enter :: "('v, 'c) env \<Rightarrow> 'c world \<Rightarrow> (unit, 'c) result" where
  "WindDataFetcher_enter env w = perform env WindStart (emit (LogInfo LoggingIn) w)"

definition WindDataFetcher_exit :: "('v, 'c) env \<Rightarrow> 'c world \<Rightarrow> (unit, 'c) result" where
  "WindDataFetcher_exit env w = perform env WindStop (emit (LogInfo LoggingOut) w)"

text \<open>
  The loop \<^verbatim>\<open>for idx, field in enumerate(spec.fields): payload[field] = response.Data[idx]\<close>.
  \<^verbatim>\<open>response.Data[idx]\<close> raises \<open>IndexError\<close> past the end of the list.
\<close>

fun fill_payload ::
  "string list \<Rightarrow> nat \<Rightarrow> 'v list list \<Rightarrow> (string \<rightharpoonup> 'v list) \<Rightarrow> error + (string \<rightharpoonup> 'v list)" where
  "fill_payload [] idx rows payload = Inr payload"
| "fill_payload (field # rest) idx rows payload =
     (if idx < length rows
      then fill_payload rest (Suc idx) rows (payload(field \<mapsto> rows ! idx))
      else Inl IndexError)"

definition wsd_call :: "data_spec \<Rightarrow> 'c call" where
  "wsd_call spec =
     WindWsd (spec_identifier spec) (join '','' (spec_fields spec)) (start spec) (end_date spec)
       (''Period='' @ frequency spec @ '';'' @ (case options spec of None \<Rightarrow> [] | Some s \<Rightarrow> s))"

definition fetch ::
  "('v, 'c) env \<Rightarrow> data_spec \<Rightarrow> 'c world \<Rightarrow> (string \<rightharpoonup> 'v list, 'c) result" where
  "fetch env spec w =
     bindE (perform env (wsd_call spec)
              (emit (LogInfo (Fetching (spec_identifier spec) (spec_fields spec) (start spec) (end_date spec))) w))
       (\<lambda>_ w1.
          let response = wsd_reply env (trace w1) in
          if ErrorCode response \<noteq> 0
          then (Inl (RuntimeError (''Wind request failed: '' @ str_int (ErrorCode response))), w1)
          else
            (case fill_payload (spec_fields spec) 0 (Data response) Map.empty of
               Inl e \<Rightarrow> (Inl e, w1)
             | Inr payload \<Rightarrow>
                 (Inr (if Times response \<noteq> [] then payload(''times'' \<mapsto> Times response) else payload),
                  w1)))"

text \<open>
  \<^verbatim>\<open>with self.data_fetcher as fetcher: payload = fetcher.fetch(data_spec)\<close>: if
  \<^verbatim>\<open>__enter__\<close> raises, the block and \<^verbatim>\<open>__exit__\<close> do not run.
\<close>

definition fetch_session ::
  "('v, 'c) env \<Rightarrow> data_spec \<Rightarrow> 'c world \<Rightarrow> (string \<rightharpoonup> 'v list, 'c) result" where
  "fetch_session env spec w =
     bindE (WindDataFetcher_enter env w)
       (\<lambda>_ w1. finallyE (fetch env spec w1) (WindDataFetcher_exit env))"

subsection \<open>Excel helpers\<close>

definition ExcelPopulator_init :: "('v, 'c) env \<Rightarrow> error + unit" where
  "ExcelPopulator_init env =
     (if \<not> load_workbook_present env
      then Inl (RuntimeError ''openpyxl is required for Excel writing.'')
      else Inr ())"

text \<open>
  openpyxl at its interface: \<^verbatim>\<open>load_workbook(path)\<close> reads the workbook stored at the
  path, \<^verbatim>\<open>wb[name]\<close> raises \<open>KeyError\<close> when there is no such sheet,
  \<^verbatim>\<open>sheet[cell] = value\<close> stores the value at the address, \<^verbatim>\<open>wb.save(path)\<close> writes
  the workbook back.
\<close>

definition load_workbook :: "('v, 'c) env \<Rightarrow> path \<Rightarrow> 'c world \<Rightarrow> ('c workbook, 'c) result" where
  "load_workbook env p w =
     bindE (perform env (LoadWorkbook p) w)
       (\<lambda>_ w1.
          case files w1 (resolve env p) of
            None \<Rightarrow> (Inl (FileNotFoundError p), w1)
          | Some (WorkbookFile wb) \<Rightarrow> (Inr wb, w1)
          | Some (PictureFile _ _ _) \<Rightarrow> (Inl (LibraryError ''InvalidFileException''), w1))"

definition save_workbook ::
  "('v, 'c) env \<Rightarrow> 'c workbook \<Rightarrow> path \<Rightarrow> 'c world \<Rightarrow> (unit, 'c) result" where
  "save_workbook env wb p w =
     bindE (perform env (SaveWorkbook p) w)
       (\<lambda>_ w1. (Inr (), w1\<lparr>files := (files w1)(resolve env p \<mapsto> WorkbookFile wb)\<rparr>))"

text \<open>
  The loop \<^verbatim>\<open>for key, cell in spec.mapping.items()\<close>; the dict is the list of its
  items, in iteration order.
\<close>

fun populate_cells ::
  "('v, 'c) env \<Rightarrow> (string \<times> string) list \<Rightarrow> (string \<rightharpoonup> 'c) \<Rightarrow> 'c sheet \<Rightarrow> 'c world
     \<Rightarrow> ('c sheet, 'c) result" where
  "populate_cells env [] payload sheet w = (Inr sheet, w)"
| "populate_cells env ((key, cell) # rest) payload sheet w =
     (case payload key of
        None \<Rightarrow> populate_cells env rest payload sheet (emit (LogWarning key) w)
      | Some v \<Rightarrow>
          (case perform env (SetCell cell v) w of
             (Inl e, w1) \<Rightarrow> (Inl e, w1)
           | (Inr _, w1) \<Rightarrow> populate_cells env rest payload (sheet(cell \<mapsto> v)) w1))"

definition populate ::
  "('v, 'c) env \<Rightarrow> cell_mapping \<Rightarrow> (string \<rightharpoonup> 'c) \<Rightarrow> 'c world \<Rightarrow> (path, 'c) result" where
  "populate env spec payload w =
     bindE (load_workbook env (workbook_path spec) (emit (LogInfo (Populating (workbook_path spec))) w))
       (\<lambda>wb w1.
          case wb (sheet_name spec) of
            None \<Rightarrow> (Inl (KeyError (''Worksheet '' @ sheet_name spec @ '' does not exist.'')), w1)
          | Some sheet \<Rightarrow>
              bindE (populate_cells env (mapping spec) payload sheet w1)
                (\<lambda>sheet' w2.
                   bindE (save_workbook env (wb(sheet_name spec \<mapsto> sheet')) (workbook_path spec) w2)
                     (\<lambda>_ w3. (Inr (workbook_path spec), w3))))"

definition ExcelScreenshotter_init :: "('v, 'c) env \<Rightarrow> error + unit" where
  "ExcelScreenshotter_init env =
     (if \<not> win32com_present env
      then Inl (RuntimeError ''pywin32 is required for Excel screenshots.'')
      else Inr ())"

text \<open>
  \<^verbatim>\<open>chart.Chart.Export(path)\<close> answers whether the picture was written; when it was, the
  file is on disk.
\<close>

definition chart_export ::
  "('v, 'c) env \<Rightarrow> screenshot_spec \<Rightarrow> path \<Rightarrow> path \<Rightarrow> 'c world \<Rightarrow> (bool, 'c) result" where
  "chart_export env spec workbook output w =
     bindE (perform env (ChartExport output) w)
       (\<lambda>_ w1.
          if export_reply env (trace w1)
          then (Inr True,
                w1\<lparr>files := (files w1)(resolve env output \<mapsto>
                       PictureFile workbook (shot_sheet_name spec) (range_address spec))\<rparr>)
          else (Inr False, w1))"

text \<open>
  The message of the export failure is \<^verbatim>\<open>"Excel \<dots>: {output_path}"\<close> with six Chinese
  characters; it is given here as the UTF-8 bytes of the source text.
\<close>

definition export_failed_message :: "path \<Rightarrow> string" where
  "export_failed_message output =
     ''Excel '' @
     [CHR 0xE6, CHR 0x88, CHR 0xAA, CHR 0xE5, CHR 0x9B, CHR 0xBE, CHR 0xE5, CHR 0xAF, CHR 0xBC,
      CHR 0xE5, CHR 0x87, CHR 0xBA, CHR 0xE5, CHR 0xA4, CHR 0xB1, CHR 0xE8, CHR 0xB4, CHR 0xA5] @
     '': '' @ output"

text \<open>The body of the \<^verbatim>\<open>try\<close> block of \<^verbatim>\<open>capture\<close>, statement by statement.\<close>

definition capture_try ::
  "('v, 'c) env \<Rightarrow> screenshot_spec \<Rightarrow> path \<Rightarrow> path \<Rightarrow> 'c world \<Rightarrow> (unit, 'c) result" where
  "capture_try env spec workbook output w =
     bindE (perform env (WorkbooksOpen workbook) w) (\<lambda>_ w.
     bindE (perform env (Worksheets (shot_sheet_name spec)) w) (\<lambda>_ w.
     bindE (perform env (SheetRange (range_address spec)) w) (\<lambda>_ w.
     bindE (perform env CopyPicture w) (\<lambda>_ w.
     bindE (perform env (Worksheets (shot_sheet_name spec)) w) (\<lambda>_ w.
     bindE (perform env ChartObjects w) (\<lambda>_ w.
     bindE (perform env ChartAdd w) (\<lambda>_ w.
     bindE (perform env ChartPaste w) (\<lambda>_ w.
     bindE (chart_export env spec workbook output w) (\<lambda>ok w.
       if \<not> ok then (Inl (RuntimeError (export_failed_message output)), w)
       else
         bindE (perform env ChartDelete w) (\<lambda>_ w.
         perform env WorkbookClose w))))))))))"

definition capture ::
  "('v, 'c) env \<Rightarrow> screenshot_spec \<Rightarrow> 'c world \<Rightarrow> (path, 'c) result" where
  "capture env spec w =
     (let workbook = resolve env (shot_workbook_path spec);
          output = resolve env (output_path spec) in
      bindE (perform env (MkdirParents output) w) (\<lambda>_ w.
      bindE (perform env Dispatch
               (emit (LogInfo (Capturing (shot_sheet_name spec) (range_address spec) workbook)) w)) (\<lambda>_ w.
      bindE (perform env SetVisible w) (\<lambda>_ w.
      bindE (finallyE (capture_try env spec workbook output w) (perform env Quit)) (\<lambda>_ w.
        (Inr output, w))))))"

subsection \<open>Email helper\<close>

definition EmailSender_init :: "('v, 'c) env \<Rightarrow> error + unit" where
  "EmailSender_init env =
     (if \<not> smtplib_present env
      then Inl (RuntimeError ''smtplib/email are required.'')
      else Inr ())"

definition build_message :: "email_spec \<Rightarrow> 'c message" where
  "build_message spec =
     \<lparr>hSubject = subject spec,
      hFrom = username spec,
      hTo = join '', '' (recipients spec),
      hCc = (if cc spec \<noteq> [] then Some (join '', '' (cc spec)) else None),
      hBcc = (if bcc spec \<noteq> [] then Some (join '', '' (bcc spec)) else None),
      content = body spec,
      parts = []\<rparr>"

definition read_bytes :: "('v, 'c) env \<Rightarrow> path \<Rightarrow> 'c world \<Rightarrow> ('c disk_file, 'c) result" where
  "read_bytes env p w =
     bindE (perform env (ReadBytes p) w)
       (\<lambda>_ w1.
          case files w1 (resolve env p) of
            None \<Rightarrow> (Inl (FileNotFoundError p), w1)
          | Some f \<Rightarrow> (Inr f, w1))"

text \<open>The loop \<^verbatim>\<open>for attachment in self.spec.attachments\<close>.\<close>

fun read_attachments ::
  "('v, 'c) env \<Rightarrow> path list \<Rightarrow> 'c message \<Rightarrow> 'c world \<Rightarrow> ('c message, 'c) result" where
  "read_attachments env [] message w = (Inr message, w)"
| "read_attachments env (attachment # rest) message w =
     (case read_bytes env attachment w of
        (Inl e, w1) \<Rightarrow> (Inl e, w1)
      | (Inr data, w1) \<Rightarrow>
          read_attachments env rest
            (message\<lparr>parts := parts message @ [(data, name_of env attachment)]\<rparr>) w1)"

text \<open>
  \<^verbatim>\<open>with smtplib.SMTP(host, port) as client\<close>: the constructor connects; leaving the
  block sends QUIT and closes the connection.
\<close>

definition smtp_session ::
  "('v, 'c) env \<Rightarrow> email_spec \<Rightarrow> 'c message \<Rightarrow> 'c world \<Rightarrow> (unit, 'c) result" where
  "smtp_session env spec message w =
     bindE (perform env (SmtpConnect (smtp_host spec) (smtp_port spec)) w) (\<lambda>_ w.
       finallyE
         (bindE (perform env StartTls w) (\<lambda>_ w.
          bindE (perform env (Login (username spec) (password spec)) w) (\<lambda>_ w.
          perform env (SendMessage message) w)))
         (perform env SmtpQuit))"

definition send :: "('v, 'c) env \<Rightarrow> email_spec \<Rightarrow> 'c world \<Rightarrow> (unit, 'c) result" where
  "send env spec w =
     bindE (read_attachments env (attachments spec) (build_message spec)
              (emit (LogInfo (Sending (recipients spec))) w))
       (\<lambda>message w1. smtp_session env spec message w1)"

subsection \<open>Workflow driver\<close>

text \<open>
  \<^verbatim>\<open>Workflow.run\<close>. The caller's \<^verbatim>\<open>email_spec\<close> is mutated in place
  (\<^verbatim>\<open>attachments.extend\<close>), so it is returned with the outcome and the world.
\<close>

definition run ::
  "('v, 'v list) env \<Rightarrow> data_spec \<Rightarrow> cell_mapping \<Rightarrow> screenshot_spec \<Rightarrow> email_spec
     \<Rightarrow> 'v list world \<Rightarrow> (error + unit) \<times> email_spec \<times> 'v list world" where
  "run env data_spec cell_mapping screenshot_spec email_spec w =
     (case fetch_session env data_spec w of
        (Inl e, w1) \<Rightarrow> (Inl e, email_spec, w1)
      | (Inr payload, w1) \<Rightarrow>
          (case populate env cell_mapping payload w1 of
             (Inl e, w2) \<Rightarrow> (Inl e, email_spec, w2)
           | (Inr populated_path, w2) \<Rightarrow>
               (case capture env screenshot_spec w2 of
                  (Inl e, w3) \<Rightarrow> (Inl e, email_spec, w3)
                | (Inr screenshot_path, w3) \<Rightarrow>
                    (let email_spec' =
                           email_spec\<lparr>attachments :=
                             attachments email_spec @ [populated_path, screenshot_path]\<rparr>
                     in case EmailSender_init env of
                          Inl e \<Rightarrow> (Inl e, email_spec', w3)
                        | Inr _ \<Rightarrow>
                            (case send env email_spec' w3 of
                               (r, w4) \<Rightarrow> (r, email_spec', w4))))))"

subsection \<open>Example usage\<close>

text \<open>
  The configuration of \<^verbatim>\<open>run_workflow_example\<close>, and environments to run it in: one
  where nothing raises, one where a given call raises. Paths are already absolute there.
\<close>

definition no_fault :: "'c call list \<Rightarrow> error option" where
  "no_fault tr = None"

definition fails_at :: "'c call \<Rightarrow> error \<Rightarrow> 'c call list \<Rightarrow> error option" where
  "fails_at c e tr = (if tr \<noteq> [] \<and> last tr = c then Some e else None)"

definition mk_env ::
  "('c call list \<Rightarrow> error option) \<Rightarrow> 'v wind_data \<Rightarrow> bool \<Rightarrow> ('v, 'c) env" where
  "mk_env f r ex =
     \<lparr>raises = f, wsd_reply = (\<lambda>_. r), export_reply = (\<lambda>_. ex), resolve = (\<lambda>p. p),
      name_of = (\<lambda>p. p), wind_client_present = True, load_workbook_present = True,
      win32com_present = True, smtplib_present = True\<rparr>"

definition example_data_spec :: data_spec where
  "example_data_spec =
     \<lparr>spec_identifier = ''000001.SZ'', spec_fields = [''close'', ''open''],
      start = ''2024-01-01'', end_date = ''2024-03-31'', frequency = ''D'', options = None\<rparr>"


definition example_screenshot_spec :: screenshot_spec where
  "example_screenshot_spec =
     \<lparr>shot_workbook_path = ''report.xlsx'', shot_sheet_name = ''Sheet1'',
      range_address = ''A1:F20'', output_path = ''report.png''\<rparr>"


definition example_reply :: "int wind_data" where
  "example_reply = \<lparr>ErrorCode = 0, Data = [[11, 12, 13], [21, 22, 23]], Times = [1, 2, 3]\<rparr>"


definition empty_world :: "'c world" where
  "empty_world = \<lparr>files = Map.empty, trace = []\<rparr>"

text \<open>A disk holding \<^verbatim>\<open>report.xlsx\<close> with two sheets, as \<^verbatim>\<open>build_demo_excel\<close> makes it.\<close>

definition example_workbook :: "int list workbook" where
  "example_workbook =
     [''Sheet1'' \<mapsto> [''A1'' \<mapsto> [100]], ''Sheet2'' \<mapsto> [''A2'' \<mapsto> [300]]]"

definition example_world :: "int list world" where
  "example_world = \<lparr>files = [''report.xlsx'' \<mapsto> WorkbookFile example_workbook], trace = []\<rparr>"

subsection \<open>Notions the statements use\<close>

text \<open>The trace once \<^verbatim>\<open>fetch\<close> has logged its line and called \<^verbatim>\<open>w.wsd\<close>.\<close>

definition wsd_trace :: "data_spec \<Rightarrow> 'c world \<Rightarrow> 'c call list" where
  "wsd_trace spec w =
     trace w @ [LogInfo (Fetching (spec_identifier spec) (spec_fields spec) (start spec) (end_date spec)),
                wsd_call spec]"

text \<open>A request that asks for a field called \<open>times\<close>, and an answer to it.\<close>

definition times_data_spec :: data_spec where
  "times_data_spec = example_data_spec\<lparr>spec_fields := [''close'', ''times'']\<rparr>"

definition times_reply :: "int wind_data" where
  "times_reply = \<lparr>ErrorCode = 0, Data = [[11, 12, 13], [7, 8, 9]], Times = [1, 2, 3]\<rparr>"











definition new_calls :: "'c world \<Rightarrow> 'c world \<Rightarrow> 'c call list" where
  "new_calls w w' = drop (length (trace w)) (trace w')"











definition extends :: "('c call \<Rightarrow> bool) \<Rightarrow> 'c world \<Rightarrow> ('a, 'c) result \<Rightarrow> bool" where
  "extends P w r = (\<exists>evs. trace (snd r) = trace w @ evs \<and> (\<forall>c \<in> set evs. P c))"

text \<open>
  The stage of \<^verbatim>\<open>Workflow.run\<close> a call belongs to: 0 fetch, 1 populate, 2 capture,
  3 send. \<open>touches K w r\<close>: the outcome \<open>r\<close> of a computation started in \<open>w\<close> has changed
  no file outside \<open>K\<close>.
\<close>

fun info_stage :: "info \<Rightarrow> nat" where
  "info_stage LoggingIn = 0"
| "info_stage (Fetching _ _ _ _) = 0"
| "info_stage LoggingOut = 0"
| "info_stage (Populating _) = 1"
| "info_stage (Capturing _ _ _) = 2"
| "info_stage (Sending _) = 3"

fun stage_of :: "'c call \<Rightarrow> nat" where
  "stage_of (LogInfo i) = info_stage i"
| "stage_of (LogWarning _) = 1"
| "stage_of WindStart = 0"
| "stage_of (WindWsd _ _ _ _ _) = 0"
| "stage_of WindStop = 0"
| "stage_of (LoadWorkbook _) = 1"
| "stage_of (SetCell _ _) = 1"
| "stage_of (SaveWorkbook _) = 1"
| "stage_of (ReadBytes _) = 3"
| "stage_of (SmtpConnect _ _) = 3"
| "stage_of StartTls = 3"
| "stage_of (Login _ _) = 3"
| "stage_of (SendMessage _) = 3"
| "stage_of SmtpQuit = 3"
| "stage_of _ = 2"

definition touches :: "path set \<Rightarrow> 'c world \<Rightarrow> ('a, 'c) result \<Rightarrow> bool" where
  "touches K w r = (\<forall>q. q \<notin> K \<longrightarrow> files (snd r) q = files w q)"

text \<open>
  An Excel whose export answers false, an Excel that rejects the assignment to
  \<^verbatim>\<open>Visible\<close>, and the calls of a \<^verbatim>\<open>capture\<close> that returns.
\<close>

definition export_failing_env :: "(int, int list) env" where
  "export_failing_env = mk_env no_fault example_reply False"

definition visible_failing_env :: "(int, int list) env" where
  "visible_failing_env = mk_env (fails_at SetVisible (LibraryError ''com_error'')) example_reply True"

definition capture_calls :: "('v, 'c) env \<Rightarrow> screenshot_spec \<Rightarrow> 'c call list" where
  "capture_calls env spec =
     [MkdirParents (resolve env (output_path spec)),
      LogInfo (Capturing (shot_sheet_name spec) (range_address spec) (resolve env (shot_workbook_path spec))),
      Dispatch, SetVisible,
      WorkbooksOpen (resolve env (shot_workbook_path spec)),
      Worksheets (shot_sheet_name spec), SheetRange (range_address spec), CopyPicture,
      Worksheets (shot_sheet_name spec), ChartObjects, ChartAdd, ChartPaste,
      ChartExport (resolve env (output_path spec)),
      ChartDelete, WorkbookClose, Quit]"

section \<open>Properties of \<^verbatim>\<open>WindDataFetcher.fetch\<close>\<close>

lemma fill_payload_returns:
  "(\<exists>p'. fill_payload fs idx rows p = Inr p') \<longleftrightarrow> fs = [] \<or> idx + length fs \<le> length rows"
  by (induction fs arbitrary: idx p) auto




lemma fetch_unfold:
  "raises env (wsd_trace spec w) = None \<Longrightarrow>
   fetch env spec w =
     (let w1 = w\<lparr>trace := wsd_trace spec w\<rparr>; response = wsd_reply env (wsd_trace spec w) in
          if ErrorCode response \<noteq> 0
          then (Inl (RuntimeError (''Wind request failed: '' @ str_int (ErrorCode response))), w1)
          else
            (case fill_payload (spec_fields spec) 0 (Data response) Map.empty of
               Inl e \<Rightarrow> (Inl e, w1)
             | Inr payload \<Rightarrow>
                 (Inr (if Times response \<noteq> [] then payload(''times'' \<mapsto> Times response) else payload),
                  w1)))"
  by (simp add: fetch_def perform_def emit_def bindE_def wsd_trace_def Let_def split: sum.splits)

text \<open>The decimal rendering of the error code determines the code.\<close>

lemma digit_char_inj: "a < 10 \<Longrightarrow> b < 10 \<Longrightarrow> digit_char a = digit_char b \<Longrightarrow> a = b"
proof -
  assume a: "a < 10" and b: "b < 10" and eq: "digit_char a = digit_char b"
  have cases: "\<And>n::nat. n < 10 \<Longrightarrow> n \<in> {0, 1, 2, 3, 4, 5, 6, 7, 8, 9}" by auto
  from cases [OF a] cases [OF b] eq show ?thesis
    by (auto simp: digit_char_def)
qed

lemma digit_char_not_minus: "d < 10 \<Longrightarrow> digit_char d \<noteq> CHR ''-''"
proof -
  assume d: "d < 10"
  have "d \<in> {0, 1, 2, 3, 4, 5, 6, 7, 8, 9}" using d by auto
  then show ?thesis by (auto simp: digit_char_def)
qed

lemma str_nat_not_Nil: "str_nat n \<noteq> []" "[] \<noteq> str_nat n"
  by (subst str_nat.simps, simp)+

lemma str_nat_hd: "hd (str_nat n) \<noteq> CHR ''-''"
proof (induction n rule: str_nat.induct)
  case (1 n)
  show ?case
  proof (cases "n < 10")
    case True
    then show ?thesis by (subst str_nat.simps) (simp add: digit_char_not_minus)
  next
    case False
    with 1 have "hd (str_nat (n div 10)) \<noteq> CHR ''-''" by simp
    with False show ?thesis
      by (subst str_nat.simps) (simp add: str_nat_not_Nil)
  qed
qed

lemma str_nat_inj: "str_nat a = str_nat b \<Longrightarrow> a = b"
proof (induction a arbitrary: b rule: str_nat.induct)
  case (1 a)
  show ?case
  proof (cases "a < 10")
    case a: True
    show ?thesis
    proof (cases "b < 10")
      case True
      with a "1.prems" show ?thesis
        by (simp add: str_nat.simps [of a] str_nat.simps [of b] digit_char_inj)
    next
      case False
      with a "1.prems" show ?thesis
        by (simp add: str_nat.simps [of a] str_nat.simps [of b] str_nat_not_Nil)
    qed
  next
    case a: False
    show ?thesis
    proof (cases "b < 10")
      case True
      with a "1.prems" show ?thesis
        by (simp add: str_nat.simps [of a] str_nat.simps [of b] str_nat_not_Nil)
    next
      case False
      with a "1.prems" have "str_nat (a div 10) = str_nat (b div 10)"
        and "digit_char (a mod 10) = digit_char (b mod 10)"
        by (simp_all add: str_nat.simps [of a] str_nat.simps [of b])
      with "1.IH" [OF a] have "a div 10 = b div 10" and "a mod 10 = b mod 10"
        by (auto intro: digit_char_inj)
      then show ?thesis by (metis div_mult_mod_eq)
    qed
  qed
qed

lemma str_int_inj: "str_int a = str_int b \<Longrightarrow> a = b"
proof -
  assume eq: "str_int a = str_int b"
  have hd: "\<And>n s. str_nat n \<noteq> CHR ''-'' # s"
    using str_nat_hd by (metis list.sel(1))
  show ?thesis
  proof (cases "a < 0")
    case a: True
    show ?thesis
    proof (cases "b < 0")
      case True
      with a eq have "nat (- a) = nat (- b)" by (simp add: str_int_def str_nat_inj)
      with a True show ?thesis by simp
    next
      case False
      with a eq hd show ?thesis by (simp add: str_int_def) metis
    qed
  next
    case a: False
    show ?thesis
    proof (cases "b < 0")
      case True
      with a eq hd show ?thesis by (simp add: str_int_def)
    next
      case False
      with a eq have "nat a = nat b" by (simp add: str_int_def str_nat_inj)
      with a False show ?thesis by simp
    qed
  qed
qed



text \<open>
  Claim C9. When the request lists a field called \<open>times\<close> and the terminal gives
  timestamps, \<^verbatim>\<open>fetch\<close> returns, logs nothing more than its one line, and the key
  \<open>times\<close> of the payload holds the timestamps: a row the terminal returned for that
  field which differs from the timestamps is not in the payload.
\<close>

theorem fetch_times_replaces_field:
  assumes "raises env (wsd_trace spec w) = None"
    and "wsd_reply env (wsd_trace spec w) = r"
    and "ErrorCode r = 0"
    and "length (spec_fields spec) \<le> length (Data r)"
    and "''times'' \<in> set (spec_fields spec)"
    and "Times r \<noteq> []"
  shows "\<exists>payload. fetch env spec w = (Inr payload, w\<lparr>trace := wsd_trace spec w\<rparr>)
           \<and> payload ''times'' = Some (Times r)
           \<and> (\<forall>i < length (spec_fields spec). spec_fields spec ! i = ''times'' \<longrightarrow>
                 Data r ! i \<noteq> Times r \<longrightarrow> payload ''times'' \<noteq> Some (Data r ! i))"
proof -
  from assms(4) obtain p where p: "fill_payload (spec_fields spec) 0 (Data r) Map.empty = Inr p"
    using fill_payload_returns [of "spec_fields spec" 0 "Data r" Map.empty] by auto
  let ?payload = "p(''times'' \<mapsto> Times r)"
  have "fetch env spec w = (Inr ?payload, w\<lparr>trace := wsd_trace spec w\<rparr>)"
    using assms(1,2,3,6) p by (simp add: fetch_unfold)
  moreover have "?payload ''times'' = Some (Times r)" by simp
  ultimately show ?thesis by auto
qed

theorem fetch_times_replaces_field_witness:
  "''times'' \<in> set (spec_fields times_data_spec)
   \<and> Data times_reply ! 1 = [7, 8, 9]
   \<and> (\<exists>payload.
         fetch (mk_env no_fault times_reply True) times_data_spec (empty_world :: int list world)
           = (Inr payload, empty_world\<lparr>trace := wsd_trace times_data_spec empty_world\<rparr>)
       \<and> payload ''times'' = Some [1, 2, 3]
       \<and> payload ''times'' \<noteq> Some [7, 8, 9])"
proof -
  let ?w = "empty_world :: int list world"
  let ?env = "mk_env no_fault times_reply True :: (int, int list) env"
  have "\<exists>payload. fetch ?env times_data_spec ?w = (Inr payload, ?w\<lparr>trace := wsd_trace times_data_spec ?w\<rparr>)
           \<and> payload ''times'' = Some (Times times_reply)
           \<and> (\<forall>i < length (spec_fields times_data_spec). spec_fields times_data_spec ! i = ''times'' \<longrightarrow>
                 Data times_reply ! i \<noteq> Times times_reply \<longrightarrow> payload ''times'' \<noteq> Some (Data times_reply ! i))"
    by (rule fetch_times_replaces_field)
       (simp_all add: mk_env_def no_fault_def times_reply_def times_data_spec_def example_data_spec_def)
  then obtain payload where
    "fetch ?env times_data_spec ?w = (Inr payload, ?w\<lparr>trace := wsd_trace times_data_spec ?w\<rparr>)"
    "payload ''times'' = Some (Times times_reply)" by blast
  then show ?thesis
    by (auto simp: times_reply_def times_data_spec_def example_data_spec_def)
qed

section \<open>Properties of \<^verbatim>\<open>ExcelPopulator.populate\<close>\<close>


lemma perform_world:
  "perform env c w = (r, w') \<Longrightarrow> files w' = files w \<and> trace w' = trace w @ [c]"
  by (auto simp: perform_def emit_def Let_def split: option.splits)

lemma perform_Inl:
  "perform env c w = (Inl e, w') \<Longrightarrow> raises env (trace w') = Some e"
  by (auto simp: perform_def emit_def Let_def split: option.splits)





lemma bindE_InrE:
  assumes "bindE m f = (Inr b, w')"
  obtains a w1 where "m = (Inr a, w1)" and "f a w1 = (Inr b, w')"
  using assms by (auto simp: bindE_def split: prod.splits sum.splits)









lemma new_calls_append: "trace w' = trace w @ evs \<Longrightarrow> new_calls w w' = evs"
  by (simp add: new_calls_def)

lemma perform_quiet:
  "raises env (trace w @ [c]) = None \<Longrightarrow> perform env c w = (Inr (), emit c w)"
  by (simp add: perform_def emit_def)









section \<open>Properties of \<^verbatim>\<open>EmailSender.send\<close>\<close>

text \<open>How traces grow under the combinators.\<close>

lemma extends_perform: "P c \<Longrightarrow> extends P w (perform env c w)"
  by (auto simp: extends_def perform_def emit_def Let_def split: option.splits)

lemma extends_return: "extends P w (x, w)"
  by (simp add: extends_def)

lemma extends_trans:
  assumes "extends P w (x, w1)" and "extends P w1 r"
  shows "extends P w r"
proof -
  from assms obtain evs evs' where "trace w1 = trace w @ evs" "\<forall>c \<in> set evs. P c"
    "trace (snd r) = trace w1 @ evs'" "\<forall>c \<in> set evs'. P c"
    by (auto simp: extends_def)
  then have "trace (snd r) = trace w @ (evs @ evs') \<and> (\<forall>c \<in> set (evs @ evs'). P c)" by auto
  then show ?thesis unfolding extends_def by blast
qed

lemma extends_emit: "P c \<Longrightarrow> extends P (emit c w) r \<Longrightarrow> extends P w r"
  by (rule extends_trans [of P w "Inr ()" "emit c w"]) (auto simp: extends_def emit_def)

lemma extends_bindE:
  assumes "extends P w m" and "\<And>a w1. extends P w1 (f a w1)"
  shows "extends P w (bindE m f)"
proof (cases m)
  case (Pair x w1)
  show ?thesis
  proof (cases x)
    case (Inl e)
    with Pair assms(1) show ?thesis by (simp add: bindE_def extends_def)
  next
    case (Inr a)
    with Pair have "bindE m f = f a w1" by (simp add: bindE_def)
    with assms Pair show ?thesis by (auto intro: extends_trans)
  qed
qed

lemma extends_finallyE:
  assumes "extends P w m" and "\<And>w1. extends P w1 (cleanup w1)"
  shows "extends P w (finallyE m cleanup)"
proof -
  obtain x w1 where m: "m = (x, w1)" by (cases m)
  obtain y w2 where c: "cleanup w1 = (y, w2)" by (cases "cleanup w1")
  have "snd (finallyE m cleanup) = w2"
    using m c by (auto simp: finallyE_def split: sum.splits)
  moreover have "extends P w (y, w2)"
    using assms(1) assms(2) [of w1] m c by (auto intro: extends_trans)
  ultimately show ?thesis by (simp add: extends_def)
qed




lemma smtp_session_first:
  "\<exists>net. trace (snd (smtp_session env spec m w)) = trace w @ SmtpConnect (smtp_host spec) (smtp_port spec) # net"
  by (auto simp: smtp_session_def bindE_def finallyE_def perform_def emit_def Let_def
      split: option.splits sum.splits prod.splits)






section \<open>Properties of \<^verbatim>\<open>ExcelScreenshotter.capture\<close>\<close>

text \<open>
  Claim C2 asks that on every exit path the chart is deleted, the workbook closed and
  Excel quit, in that order. When \<^verbatim>\<open>Chart.Export\<close> answers false, \<^verbatim>\<open>capture\<close> raises
  inside the \<^verbatim>\<open>try\<close> block, before \<^verbatim>\<open>chart.Delete()\<close> and \<^verbatim>\<open>workbook.Close\<close>; the
  \<^verbatim>\<open>finally\<close> block only quits. The calls made are exactly these: the export is
  followed by \<open>Quit\<close>, with neither \<open>ChartDelete\<close> nor \<open>WorkbookClose\<close>.
\<close>

theorem capture_export_failure_trace:
  "capture export_failing_env example_screenshot_spec example_world =
     (Inl (RuntimeError (export_failed_message ''report.png'')),
      example_world\<lparr>trace :=
        [MkdirParents ''report.png'', LogInfo (Capturing ''Sheet1'' ''A1:F20'' ''report.xlsx''),
         Dispatch, SetVisible, WorkbooksOpen ''report.xlsx'', Worksheets ''Sheet1'', SheetRange ''A1:F20'',
         CopyPicture, Worksheets ''Sheet1'', ChartObjects, ChartAdd, ChartPaste,
         ChartExport ''report.png'', Quit]\<rparr>)"
  by (simp add: capture_def capture_try_def chart_export_def bindE_def finallyE_def perform_def
      emit_def Let_def export_failing_env_def mk_env_def no_fault_def example_screenshot_spec_def
      example_world_def)

text \<open>
  Claim C5 asks that Excel is quit on every exit path. \<^verbatim>\<open>excel.Visible = False\<close> stands
  between \<^verbatim>\<open>Dispatch\<close> and the \<^verbatim>\<open>try\<close> block: when it raises, Excel has been started
  and \<^verbatim>\<open>capture\<close> raises without \<open>Quit\<close>. The calls made are exactly these.
\<close>

theorem capture_visible_failure_trace:
  "capture visible_failing_env example_screenshot_spec example_world =
     (Inl (LibraryError ''com_error''),
      example_world\<lparr>trace :=
        [MkdirParents ''report.png'', LogInfo (Capturing ''Sheet1'' ''A1:F20'' ''report.xlsx''),
         Dispatch, SetVisible]\<rparr>)"
  by (simp add: capture_def capture_try_def chart_export_def bindE_def finallyE_def perform_def
      emit_def Let_def visible_failing_env_def mk_env_def fails_at_def example_screenshot_spec_def
      example_world_def)

lemma finallyE_perform_trace:
  "finallyE m (perform env c) = (r, w') \<Longrightarrow> trace w' = trace (snd m) @ [c] \<and> files w' = files (snd m)"
  by (auto simp: finallyE_def perform_def emit_def Let_def split: option.splits sum.splits prod.splits)

lemma finallyE_InrE:
  assumes "finallyE m cleanup = (Inr a, w')"
  obtains w1 u where "m = (Inr a, w1)" and "cleanup w1 = (Inr u, w')"
  using assms by (cases m) (auto simp: finallyE_def split: sum.splits prod.splits)

lemma chart_export_InrE:
  assumes "chart_export env spec workbook output w = (Inr ok, w')"
  obtains "trace w' = trace w @ [ChartExport output]"
  using assms unfolding chart_export_def
  by (elim bindE_InrE) (auto dest!: perform_world split: if_splits)

lemma capture_try_returns:
  assumes "capture_try env spec workbook output w = (Inr u, w')"
  shows "trace w' = trace w @
      [WorkbooksOpen workbook, Worksheets (shot_sheet_name spec), SheetRange (range_address spec),
       CopyPicture, Worksheets (shot_sheet_name spec), ChartObjects, ChartAdd, ChartPaste,
       ChartExport output, ChartDelete, WorkbookClose]"
  using assms unfolding capture_try_def
  by (elim bindE_InrE chart_export_InrE) (auto dest!: perform_world split: if_splits elim!: bindE_InrE)


lemma touches_perform: "touches K w (perform env c w)"
  by (auto simp: touches_def perform_def emit_def Let_def split: option.splits)

lemma touches_return: "touches K w (x, w)"
  by (simp add: touches_def)

lemma touches_emit: "touches K (emit c w) r \<Longrightarrow> touches K w r"
  by (simp add: touches_def emit_def)

lemma touches_bindE:
  assumes "touches K w m" and "\<And>a w1. touches K w1 (f a w1)"
  shows "touches K w (bindE m f)"
proof (cases m)
  case (Pair x w1)
  show ?thesis
  proof (cases x)
    case (Inl e)
    with Pair assms(1) show ?thesis by (simp add: bindE_def touches_def)
  next
    case (Inr a)
    with Pair have "bindE m f = f a w1" by (simp add: bindE_def)
    with assms(1) assms(2) [of w1 a] Pair show ?thesis by (simp add: touches_def)
  qed
qed

lemma touches_finallyE:
  assumes "touches K w m" and "\<And>w1. touches K w1 (cleanup w1)"
  shows "touches K w (finallyE m cleanup)"
proof -
  obtain x w1 where m: "m = (x, w1)" by (cases m)
  obtain y w2 where c: "cleanup w1 = (y, w2)" by (cases "cleanup w1")
  have "snd (finallyE m cleanup) = w2"
    using m c by (auto simp: finallyE_def split: sum.splits)
  then show ?thesis
    using assms(1) assms(2) [of w1] m c by (simp add: touches_def)
qed

lemma extends_files_upd: "extends P w (x, w\<lparr>files := f\<rparr>)"
  by (simp add: extends_def)

lemma extends_perform_emit: "P c0 \<Longrightarrow> P c \<Longrightarrow> extends P w (perform env c (emit c0 w))"
  by (rule extends_emit [of P c0]) (simp_all add: extends_perform)

lemma touches_files_upd: "touches {k} w (x, w\<lparr>files := (files w)(k \<mapsto> v)\<rparr>)"
  by (simp add: touches_def)

lemma touches_perform_emit: "touches K w (perform env c (emit c0 w))"
  by (rule touches_emit [of K c0]) (rule touches_perform)

lemma chart_export_extends:
  "extends (\<lambda>c. stage_of c = 2) w (chart_export env spec workbook output w)"
  unfolding chart_export_def
  by (intro extends_bindE extends_perform) (simp_all add: extends_files_upd extends_return)

lemma chart_export_touches:
  "touches {resolve env output} w (chart_export env spec workbook output w)"
  unfolding chart_export_def
  by (intro touches_bindE touches_perform) (simp add: touches_files_upd touches_return)

lemma capture_try_extends:
  "extends (\<lambda>c. stage_of c = 2) w (capture_try env spec workbook output w)"
  unfolding capture_try_def
  by (intro extends_bindE extends_perform chart_export_extends)
     (simp_all add: extends_bindE extends_perform extends_return)

lemma capture_try_touches:
  "touches {resolve env output} w (capture_try env spec workbook output w)"
  unfolding capture_try_def
  by (intro touches_bindE touches_perform chart_export_touches)
     (simp add: touches_bindE touches_perform touches_return)

lemma capture_extends: "extends (\<lambda>c. stage_of c = 2) w (capture env spec w)"
  unfolding capture_def Let_def
  by (intro extends_bindE extends_finallyE extends_perform extends_perform_emit
        capture_try_extends extends_return)
     simp_all

lemma capture_touches:
  "touches {resolve env (resolve env (output_path spec))} w (capture env spec w)"
  unfolding capture_def Let_def
  by (intro touches_bindE touches_finallyE touches_perform touches_perform_emit
        capture_try_touches touches_return)

text \<open>
  Every way out of \<^verbatim>\<open>capture\<close>. When it returns, it returns the resolved output path
  and has made the sixteen calls of \<open>capture_calls\<close>, ending with the deletion of the chart,
  the closing of the workbook and \<open>Quit\<close>. When it raises, either the last call is \<open>Quit\<close>
  (the \<^verbatim>\<open>try\<close> block was entered), or the call that raised is \<^verbatim>\<open>mkdir\<close>,
  \<^verbatim>\<open>Dispatch\<close> or the assignment to \<^verbatim>\<open>Visible\<close>, and nothing follows it.
\<close>

theorem capture_exit_paths:
  assumes "capture env spec w = (r, w')"
  shows "trace w' = trace w @ new_calls w w'
    \<and> (\<forall>p. r = Inr p \<longrightarrow> p = resolve env (output_path spec) \<and> new_calls w w' = capture_calls env spec)
    \<and> (last (new_calls w w') = Quit
        \<or> (\<exists>e. r = Inl e \<and> raises env (trace w') = Some e
              \<and> (new_calls w w' = take 1 (capture_calls env spec)
                 \<or> new_calls w w' = take 3 (capture_calls env spec)
                 \<or> new_calls w w' = take 4 (capture_calls env spec))))"
proof -
  let ?out = "resolve env (output_path spec)"
  let ?wb = "resolve env (shot_workbook_path spec)"
  let ?info = "LogInfo (Capturing (shot_sheet_name spec) (range_address spec) ?wb)"
  obtain r1 w1 where p1: "perform env (MkdirParents ?out) w = (r1, w1)" by fastforce
  note t1 = perform_world [OF p1]
  show ?thesis
  proof (cases r1)
    case (Inl e)
    with assms p1 have "r = Inl e" "w' = w1" by (auto simp: capture_def bindE_def Let_def)
    moreover have "new_calls w w1 = [MkdirParents ?out]" using t1 by (intro new_calls_append) simp
    ultimately show ?thesis
      using t1 perform_Inl [of env _ w e w1] p1 Inl by (simp add: capture_calls_def)
  next
    case Inr
    obtain r2 w2 where p2: "perform env Dispatch (emit ?info w1) = (r2, w2)" by fastforce
    have t2: "trace w2 = trace w @ [MkdirParents ?out, ?info, Dispatch]"
      using perform_world [OF p2] t1 by (simp add: emit_def)
    show ?thesis
    proof (cases r2)
      case (Inl e)
      with assms p1 p2 \<open>r1 = Inr _\<close> have "r = Inl e" "w' = w2"
        by (auto simp: capture_def bindE_def Let_def)
      moreover have "new_calls w w2 = [MkdirParents ?out, ?info, Dispatch]"
        using t2 by (intro new_calls_append) simp
      ultimately show ?thesis
        using t2 perform_Inl [of env _ _ e w2] p2 Inl by (simp add: capture_calls_def)
    next
      case Inr
      obtain r3 w3 where p3: "perform env SetVisible w2 = (r3, w3)" by fastforce
      have t3: "trace w3 = trace w @ [MkdirParents ?out, ?info, Dispatch, SetVisible]"
        using perform_world [OF p3] t2 by simp
      show ?thesis
      proof (cases r3)
        case (Inl e)
        with assms p1 p2 p3 \<open>r1 = Inr _\<close> \<open>r2 = Inr _\<close> have "r = Inl e" "w' = w3"
          by (auto simp: capture_def bindE_def Let_def)
        moreover have "new_calls w w3 = [MkdirParents ?out, ?info, Dispatch, SetVisible]"
          using t3 by (intro new_calls_append) simp
        ultimately show ?thesis
          using t3 perform_Inl [of env _ _ e w3] p3 Inl by (simp add: capture_calls_def)
      next
        case Inr
        obtain r4 w4 where f: "finallyE (capture_try env spec ?wb ?out w3) (perform env Quit) = (r4, w4)"
          by fastforce
        obtain rb wb where b: "capture_try env spec ?wb ?out w3 = (rb, wb)" by fastforce
        from capture_try_extends [of w3 env spec ?wb ?out] b obtain evs where
          evs: "trace wb = trace w3 @ evs" by (auto simp: extends_def)
        have t4: "trace w4 = trace w @ [MkdirParents ?out, ?info, Dispatch, SetVisible] @ evs @ [Quit]"
          using finallyE_perform_trace [OF f] b evs t3 by simp
        have nc: "new_calls w w4 = [MkdirParents ?out, ?info, Dispatch, SetVisible] @ evs @ [Quit]"
          using t4 by (rule new_calls_append)
        from assms p1 p2 p3 f \<open>r1 = Inr _\<close> \<open>r2 = Inr _\<close> \<open>r3 = Inr _\<close>
        have res: "w' = w4" "r = (case r4 of Inl e \<Rightarrow> Inl e | Inr _ \<Rightarrow> Inr ?out)"
          by (auto simp: capture_def bindE_def Let_def split: sum.splits)
        have ret: "p = ?out \<and> new_calls w w' = capture_calls env spec" if "r = Inr p" for p
        proof -
          from that res(2) obtain u where r4: "r4 = Inr u" and p: "p = ?out"
            by (cases r4) auto
          from f [unfolded r4] obtain wbody where body: "capture_try env spec ?wb ?out w3 = (Inr u, wbody)"
            by (elim finallyE_InrE)
          from capture_try_returns [OF body] body b evs have "evs =
            [WorkbooksOpen ?wb, Worksheets (shot_sheet_name spec), SheetRange (range_address spec),
             CopyPicture, Worksheets (shot_sheet_name spec), ChartObjects, ChartAdd, ChartPaste,
             ChartExport ?out, ChartDelete, WorkbookClose]" by simp
          with nc res(1) p show ?thesis by (simp add: capture_calls_def)
        qed
        have "last (new_calls w w') = Quit" using nc res(1) by simp
        moreover have "trace w' = trace w @ new_calls w w'" using nc t4 res(1) by simp
        ultimately show ?thesis using ret by blast
      qed
    qed
  qed
qed

end
